theory Spec2Isabelle
  imports Complex_Main "HOL-Library.Multiset" "HOL-Library.Sublist"
begin

section \<open>Exceptions\<close>

text \<open>
  An exception is a value: the ValueError the client raises itself, or any
  other exception, each with the text \<^verbatim>\<open>str(e)\<close> gives.
\<close>

datatype exn = ValueError string | RaisedError string

fun str_exn :: "exn \<Rightarrow> string" where
  "str_exn (ValueError m) = m"
| "str_exn (RaisedError m) = m"

section \<open>Strings of the standard library\<close>

text \<open>
  The string methods the source calls, on strings as character lists.
  \<open>rstrip_chars chars s\<close> is \<^verbatim>\<open>s.rstrip(chars)\<close>: it removes from the end of \<open>s\<close>
  every character that occurs in \<open>chars\<close>, until one does not; \<open>strip_chars\<close> does
  so at both ends. \<open>split_on c s\<close> is \<^verbatim>\<open>s.split(c)\<close> for a separator of one
  character: every occurrence separates, so the result is never empty.
\<close>

definition rstrip_chars :: "string \<Rightarrow> string \<Rightarrow> string" where
  "rstrip_chars chars s = rev (dropWhile (\<lambda>c. c \<in> set chars) (rev s))"

definition lstrip_chars :: "string \<Rightarrow> string \<Rightarrow> string" where
  "lstrip_chars chars s = dropWhile (\<lambda>c. c \<in> set chars) s"

definition strip_chars :: "string \<Rightarrow> string \<Rightarrow> string" where
  "strip_chars chars s = rstrip_chars chars (lstrip_chars chars s)"

fun split_on :: "char \<Rightarrow> string \<Rightarrow> string list" where
  "split_on c [] = [[]]"
| "split_on c (x # xs) =
     (if x = c then [] # split_on c xs
      else (case split_on c xs of [] \<Rightarrow> [[x]] | y # ys \<Rightarrow> (x # y) # ys))"

text \<open>The decimal text of a natural number, as \<^verbatim>\<open>str\<close> and an f-string give it.\<close>

function str_nat :: "nat \<Rightarrow> string" where
  "str_nat n =
     (if n < 10 then [''0123456789'' ! n]
      else str_nat (n div 10) @ [''0123456789'' ! (n mod 10)])"
  by pat_completeness auto
termination
  by (relation "measure id") auto

declare str_nat.simps [simp del]

section \<open>The path component of a URL\<close>

text \<open>
  \<^verbatim>\<open>urllib.parse.urlparse(url).path\<close>, following the steps of the library's
  \<^verbatim>\<open>urlsplit\<close> and \<^verbatim>\<open>urlparse\<close>: leading control characters and spaces are
  dropped and tabs and line breaks removed; a scheme is split off at the first
  colon when what precedes it starts with a letter and consists of scheme
  characters; after a double slash the network location runs up to the first
  slash, question mark or hash; fragment and query are cut off; for a scheme
  that has parameters, the parameters of the last path segment are cut off at
  its first semicolon. A network location with only one of the two square
  brackets raises ValueError. (The library's further checks of a bracketed
  host and of a host with non-ASCII characters are outside this model.)
\<close>

definition c0_control_or_space :: "string" where
  "c0_control_or_space =
     [CHR 0x00, CHR 0x01, CHR 0x02, CHR 0x03, CHR 0x04, CHR 0x05, CHR 0x06, CHR 0x07,
      CHR 0x08, CHR 0x09, CHR 0x0A, CHR 0x0B, CHR 0x0C, CHR 0x0D, CHR 0x0E, CHR 0x0F,
      CHR 0x10, CHR 0x11, CHR 0x12, CHR 0x13, CHR 0x14, CHR 0x15, CHR 0x16, CHR 0x17,
      CHR 0x18, CHR 0x19, CHR 0x1A, CHR 0x1B, CHR 0x1C, CHR 0x1D, CHR 0x1E, CHR 0x1F,
      CHR 0x20]"

definition unsafe_url_bytes_to_remove :: "string" where
  "unsafe_url_bytes_to_remove = [CHR 0x09, CHR 0x0D, CHR 0x0A]"

definition ascii_lowercase :: "string" where
  "ascii_lowercase = ''abcdefghijklmnopqrstuvwxyz''"

definition ascii_uppercase :: "string" where
  "ascii_uppercase = ''ABCDEFGHIJKLMNOPQRSTUVWXYZ''"

definition scheme_chars :: "string" where
  "scheme_chars = ascii_lowercase @ ascii_uppercase @ ''0123456789'' @ ''+-.''"

definition lower_char :: "char \<Rightarrow> char" where
  "lower_char c =
     (case map_of (zip ascii_uppercase ascii_lowercase) c of Some l \<Rightarrow> l | None \<Rightarrow> c)"

definition uses_params :: "string list" where
  "uses_params =
     [[], ''ftp'', ''hdl'', ''prospero'', ''http'', ''imap'', ''https'', ''shttp'',
      ''rtsp'', ''rtsps'', ''rtspu'', ''sip'', ''sips'', ''mms'', ''sftp'', ''tel'']"

definition splitparams :: "string \<Rightarrow> string" where
  "splitparams url =
     (if CHR ''/'' \<in> set url
      then (let last_segment = rev (takeWhile (\<lambda>c. c \<noteq> CHR ''/'') (rev url))
            in take (length url - length last_segment) url @
               takeWhile (\<lambda>c. c \<noteq> CHR '';'') last_segment)
      else takeWhile (\<lambda>c. c \<noteq> CHR '';'') url)"

definition url_clean :: "string \<Rightarrow> string" where
  "url_clean url =
     filter (\<lambda>c. c \<notin> set unsafe_url_bytes_to_remove) (lstrip_chars c0_control_or_space url)"

definition split_scheme :: "string \<Rightarrow> string \<times> string" where
  "split_scheme url =
     (let pre = takeWhile (\<lambda>c. c \<noteq> CHR '':'') url in
      if length pre < length url \<and> pre \<noteq> []
         \<and> hd pre \<in> set (ascii_lowercase @ ascii_uppercase)
         \<and> list_all (\<lambda>c. c \<in> set scheme_chars) pre
      then (map lower_char pre, drop (Suc (length pre)) url)
      else ([], url))"

definition split_netloc :: "string \<Rightarrow> string \<times> string" where
  "split_netloc url =
     (if take 2 url = ''//''
      then (takeWhile (\<lambda>c. c \<notin> set ''/?#'') (drop 2 url),
            dropWhile (\<lambda>c. c \<notin> set ''/?#'') (drop 2 url))
      else ([], url))"

definition urlparse_path :: "string \<Rightarrow> exn + string" where
  "urlparse_path url0 =
     (case split_scheme (url_clean url0) of (scheme, url2) \<Rightarrow>
      case split_netloc url2 of (netloc, url3) \<Rightarrow>
        (let url4 = takeWhile (\<lambda>c. c \<noteq> CHR ''#'') url3;
             url5 = takeWhile (\<lambda>c. c \<noteq> CHR ''?'') url4
         in if (CHR ''['' \<in> set netloc) \<noteq> (CHR '']'' \<in> set netloc)
            then Inl (ValueError ''Invalid IPv6 URL'')
            else Inr (if scheme \<in> set uses_params \<and> CHR '';'' \<in> set url5
                      then splitparams url5 else url5)))"

section \<open>The hosting client: parsing a repository URL\<close>

text \<open>
  \<^verbatim>\<open>GitHubClient.parse_repo_url\<close>. The two calls of \<^verbatim>\<open>rstrip\<close> take a set of
  characters: the second removes every trailing dot, g, i and t.
\<close>

definition parse_repo_url :: "string \<Rightarrow> exn + (string \<times> string)" where
  "parse_repo_url url0 =
     (let url = rstrip_chars ''.git'' (rstrip_chars ''/'' url0) in
      case urlparse_path url of
        Inl e \<Rightarrow> Inl e
      | Inr path \<Rightarrow>
          (let path_parts = split_on CHR ''/'' (strip_chars ''/'' path) in
           if length path_parts < 2 then Inl (ValueError (''Invalid GitHub URL: '' @ url))
           else Inr (path_parts ! 0, path_parts ! 1)))"

section \<open>Data model of the edit pipeline\<close>

text \<open>
  The dataclasses of \<^verbatim>\<open>ai_editor.py\<close> and \<^verbatim>\<open>repository_manager.py\<close> as records.
  A field whose name is already taken by another record, or is a keyword of the
  proof language, carries a prefix. The free-form context dictionary of an
  instruction is a value of a type parameter \<open>'c\<close>; a review issue is a value of
  a type parameter \<open>'i\<close>.
\<close>

record 'c edit_instruction =
  file_path :: string
  change_type :: string
  description :: string
  instr_context :: "'c option"
  priority :: int

record 'c edit_plan =
  instructions :: "'c edit_instruction list"
  dependencies :: "string list"
  risks :: "string list"
  estimated_time :: string
  confidence :: real

text \<open>
  The three shapes of the dictionary that \<^verbatim>\<open>AIEditor.review_changes\<close> returns:
  status "unchanged" (no issues), status "reviewed" (issues and a summary), and
  status "error" (the message of the failure, no issues).
\<close>

datatype 'i review = Unchanged | Reviewed "'i list" string | ReviewError string

record 'i file_change =
  change_file_path :: string
  original_content :: string
  new_content :: string
  change_kind :: string
  language :: string
  validation_result :: "bool \<times> string list"
  review_result :: "'i review option"
  explanation :: "string option"

record edit_summary =
  total_instructions :: nat
  successful_changes :: nat
  failed_changes :: nat
  warnings_count :: nat
  files_modified :: nat
  files_created :: nat
  files_deleted :: nat
  timestamp :: string

record ('c, 'i) edit_result =
  success :: bool
  changes :: "'i file_change list"
  plan :: "'c edit_plan option"
  summary :: edit_summary
  errors :: "string list"
  warnings :: "string list"
  branch_name :: "string option"
  pr_url :: "string option"

section \<open>The collaborators of the executor\<close>

text \<open>
  \<^verbatim>\<open>RepositoryManager.execute_edits\<close> calls the AI editor, the language detector and
  the local file system. They are parameters of the model:
  \<^item> \<open>full_path\<close> is \<^verbatim>\<open>Path(context.local_path) / file_path\<close>, for a context with a
    local path, as \<^verbatim>\<open>analyze_repository\<close> builds it;
  \<^item> \<open>detect_language\<close> is \<^verbatim>\<open>CodeAnalyzer.detect_language(filename, content)\<close>;
  \<^item> \<open>edit_file\<close> and \<open>validate_edit\<close> are the methods of the AI editor, which
    either return or raise (\<open>Inl\<close> carries the exception);
  \<^item> \<open>ai_review\<close> and \<open>ai_explain\<close> are what \<^verbatim>\<open>review_changes\<close> and
    \<^verbatim>\<open>explain_changes\<close> obtain from the service when the content has changed
    (both methods catch the failures of the service and return a value);
  \<^item> \<open>str_warnings\<close> is the text an f-string produces for the warning list;
  \<^item> \<open>now_isoformat\<close> is \<^verbatim>\<open>datetime.now().isoformat()\<close>.

  The file system is a state of a type \<open>'fs\<close> with the operations the loop uses, each
  of which may raise:
  \<^item> \<open>file_exists\<close> is \<^verbatim>\<open>full_path.exists()\<close>;
  \<^item> \<open>read_text\<close> is opening the file for reading as UTF-8 and reading it: the text
    the program gets, or the exception (a directory, bytes that are no UTF-8, no
    permission);
  \<^item> \<open>write_text\<close> is opening the file for writing and writing the text: the file
    system afterwards, with the exception when one is raised;
  \<^item> \<open>make_parents\<close> is \<^verbatim>\<open>full_path.parent.mkdir(parents=True, exist_ok=True)\<close>;
  \<^item> \<open>unlink\<close> is \<^verbatim>\<open>full_path.unlink()\<close>.
\<close>

record ('c, 'i, 'fs) collaborators =
  full_path :: "string \<Rightarrow> string"
  detect_language :: "string \<Rightarrow> string option \<Rightarrow> string"
  file_exists :: "'fs \<Rightarrow> string \<Rightarrow> bool"
  read_text :: "'fs \<Rightarrow> string \<Rightarrow> exn + string"
  write_text :: "'fs \<Rightarrow> string \<Rightarrow> string \<Rightarrow> exn option \<times> 'fs"
  make_parents :: "'fs \<Rightarrow> string \<Rightarrow> exn option \<times> 'fs"
  unlink :: "'fs \<Rightarrow> string \<Rightarrow> exn option \<times> 'fs"
  edit_file :: "string \<Rightarrow> string \<Rightarrow> string \<Rightarrow> string \<Rightarrow> 'c option \<Rightarrow> exn + string"
  validate_edit :: "string \<Rightarrow> string \<Rightarrow> string \<Rightarrow> string \<Rightarrow> exn + (bool \<times> string list)"
  ai_review :: "string \<Rightarrow> string \<Rightarrow> string \<Rightarrow> string \<Rightarrow> 'i review"
  ai_explain :: "string \<Rightarrow> string \<Rightarrow> string \<Rightarrow> string \<Rightarrow> string \<Rightarrow> string"
  str_warnings :: "string list \<Rightarrow> string"
  now_isoformat :: string

definition review_changes ::
  "('c, 'i, 'fs) collaborators \<Rightarrow> string \<Rightarrow> string \<Rightarrow> string \<Rightarrow> string \<Rightarrow> 'i review" where
  "review_changes env original modified path lang =
     (if original = modified then Unchanged
      else ai_review env original modified path lang)"

definition explain_changes ::
  "('c, 'i, 'fs) collaborators \<Rightarrow> string \<Rightarrow> string \<Rightarrow> string \<Rightarrow> string \<Rightarrow> string \<Rightarrow> string" where
  "explain_changes env original modified path lang user_request =
     (if original = modified then ''No changes were made to this file.''
      else ai_explain env original modified path lang user_request)"

section \<open>The executor\<close>

text \<open>
  The state of the loop of \<^verbatim>\<open>execute_edits\<close>: the file system, the three lists
  the loop appends to, and the instructions the loop has taken up so far, in
  the order of the "Processing ..." log lines.
\<close>

record ('c, 'i, 'fs) exec_state =
  st_files :: 'fs
  st_changes :: "'i file_change list"
  st_errors :: "string list"
  st_warnings :: "string list"
  st_processed :: "'c edit_instruction list"

definition sorted_instructions :: "'c edit_plan \<Rightarrow> 'c edit_instruction list" where
  "sorted_instructions p = sort_key priority (instructions p)"

text \<open>The two error strings of the loop.\<close>

definition validation_failed_message :: "string \<Rightarrow> string \<Rightarrow> string" where
  "validation_failed_message path warnings_text =
     ''Validation failed for '' @ path @ '': '' @ warnings_text"

definition processing_failed_message :: "string \<Rightarrow> string \<Rightarrow> string" where
  "processing_failed_message path exception_text =
     ''Failed to process instruction for '' @ path @ '': '' @ exception_text"

text \<open>
  The branches of the try block. Each returns the state in which the block is
  left, with the exception when it is left by one: what was written to the file
  system before the exception stays written.

  The branch for "modify".
\<close>

definition modify_file ::
  "('c, 'i, 'fs) collaborators \<Rightarrow> string \<Rightarrow> ('c, 'i, 'fs) exec_state \<Rightarrow> 'c edit_instruction
     \<Rightarrow> exn option \<times> ('c, 'i, 'fs) exec_state" where
  "modify_file env user_request st instr =
     (let path = file_path instr; full = full_path env path in
      if \<not> file_exists env (st_files st) full
      then (None, st\<lparr>st_warnings := st_warnings st @
                      [''File not found for modification: '' @ path]\<rparr>)
      else
        (case read_text env (st_files st) full of
           Inl e \<Rightarrow> (Some e, st)
         | Inr original \<Rightarrow>
             (let lang = detect_language env path (Some original) in
              case edit_file env original path lang (description instr) (instr_context instr) of
                Inl e \<Rightarrow> (Some e, st)
              | Inr new \<Rightarrow>
                  (case validate_edit env original new path lang of
                     Inl e \<Rightarrow> (Some e, st)
                   | Inr (is_valid, validation_warnings) \<Rightarrow>
                       (let review = review_changes env original new path lang;
                            expl = explain_changes env original new path lang user_request;
                            change = \<lparr>change_file_path = path, original_content = original,
                                      new_content = new, change_kind = ''modified'',
                                      language = lang,
                                      validation_result = (is_valid, validation_warnings),
                                      review_result = Some review, explanation = Some expl\<rparr>
                        in if is_valid
                           then (case write_text env (st_files st) full new of
                                   (Some e, fs) \<Rightarrow> (Some e, st\<lparr>st_files := fs\<rparr>)
                                 | (None, fs) \<Rightarrow>
                                     (None, st\<lparr>st_files := fs,
                                               st_changes := st_changes st @ [change]\<rparr>))
                           else (None, st\<lparr>st_errors := st_errors st @
                                  [validation_failed_message path
                                     (str_warnings env validation_warnings)]\<rparr>))))))"

text \<open>The branch for "create": no validation, the generated content is written.\<close>

definition create_file ::
  "('c, 'i, 'fs) collaborators \<Rightarrow> ('c, 'i, 'fs) exec_state \<Rightarrow> 'c edit_instruction
     \<Rightarrow> exn option \<times> ('c, 'i, 'fs) exec_state" where
  "create_file env st instr =
     (let path = file_path instr; full = full_path env path in
      case make_parents env (st_files st) full of
        (Some e, fs1) \<Rightarrow> (Some e, st\<lparr>st_files := fs1\<rparr>)
      | (None, fs1) \<Rightarrow>
          (let lang = detect_language env path None in
           case edit_file env [] path lang (description instr) (instr_context instr) of
             Inl e \<Rightarrow> (Some e, st\<lparr>st_files := fs1\<rparr>)
           | Inr new \<Rightarrow>
               (case write_text env fs1 full new of
                  (Some e, fs2) \<Rightarrow> (Some e, st\<lparr>st_files := fs2\<rparr>)
                | (None, fs2) \<Rightarrow>
                    (None, st\<lparr>st_files := fs2,
                              st_changes := st_changes st @
                                [\<lparr>change_file_path = path, original_content = [],
                                  new_content = new, change_kind = ''created'',
                                  language = lang, validation_result = (True, []),
                                  review_result = None, explanation = None\<rparr>]\<rparr>))))"

text \<open>The branch for "delete".\<close>

definition delete_file ::
  "('c, 'i, 'fs) collaborators \<Rightarrow> ('c, 'i, 'fs) exec_state \<Rightarrow> 'c edit_instruction
     \<Rightarrow> exn option \<times> ('c, 'i, 'fs) exec_state" where
  "delete_file env st instr =
     (let path = file_path instr; full = full_path env path in
      if file_exists env (st_files st) full
      then (case read_text env (st_files st) full of
              Inl e \<Rightarrow> (Some e, st)
            | Inr original \<Rightarrow>
                (let lang = detect_language env path (Some original) in
                 case unlink env (st_files st) full of
                   (Some e, fs) \<Rightarrow> (Some e, st\<lparr>st_files := fs\<rparr>)
                 | (None, fs) \<Rightarrow>
                     (None, st\<lparr>st_files := fs,
                               st_changes := st_changes st @
                                 [\<lparr>change_file_path = path, original_content = original,
                                   new_content = [], change_kind = ''deleted'',
                                   language = lang, validation_result = (True, []),
                                   review_result = None, explanation = None\<rparr>]\<rparr>)))
      else (None, st\<lparr>st_warnings := st_warnings st @
                      [''File not found for deletion: '' @ path]\<rparr>))"

text \<open>
  The if/elif chain on the change type. A change type that is none of the four
  falls through the chain: nothing is appended anywhere.
\<close>

definition try_instruction ::
  "('c, 'i, 'fs) collaborators \<Rightarrow> string \<Rightarrow> ('c, 'i, 'fs) exec_state \<Rightarrow> 'c edit_instruction
     \<Rightarrow> exn option \<times> ('c, 'i, 'fs) exec_state" where
  "try_instruction env user_request st instr =
     (if change_type instr = ''modify'' then modify_file env user_request st instr
      else if change_type instr = ''create'' then create_file env st instr
      else if change_type instr = ''delete'' then delete_file env st instr
      else if change_type instr = ''rename'' then
        (None, st\<lparr>st_warnings := st_warnings st @
                  [''Rename operation not yet implemented: '' @ file_path instr]\<rparr>)
      else (None, st))"

text \<open>
  One iteration of the loop: the try block and its except clause, which turns
  the exception into an error string and lets the loop go on.
\<close>

definition process_instruction ::
  "('c, 'i, 'fs) collaborators \<Rightarrow> string \<Rightarrow> ('c, 'i, 'fs) exec_state \<Rightarrow> 'c edit_instruction
     \<Rightarrow> ('c, 'i, 'fs) exec_state" where
  "process_instruction env user_request st instr =
     (case try_instruction env user_request (st\<lparr>st_processed := st_processed st @ [instr]\<rparr>)
             instr of
        (None, st2) \<Rightarrow> st2
      | (Some e, st2) \<Rightarrow>
          st2\<lparr>st_errors := st_errors st2 @
                [processing_failed_message (file_path instr) (str_exn e)]\<rparr>)"

definition initial_state :: "'fs \<Rightarrow> ('c, 'i, 'fs) exec_state" where
  "initial_state files =
     \<lparr>st_files = files, st_changes = [], st_errors = [], st_warnings = [], st_processed = []\<rparr>"

definition run_instructions ::
  "('c, 'i, 'fs) collaborators \<Rightarrow> string \<Rightarrow> 'c edit_plan \<Rightarrow> 'fs \<Rightarrow> ('c, 'i, 'fs) exec_state" where
  "run_instructions env user_request p files =
     foldl (process_instruction env user_request) (initial_state files) (sorted_instructions p)"

definition count_kind :: "string \<Rightarrow> 'i file_change list \<Rightarrow> nat" where
  "count_kind k cs = length (filter (\<lambda>c. change_kind c = k) cs)"

text \<open>
  \<^verbatim>\<open>execute_edits\<close>: the result object and the file system the loop leaves behind.
\<close>

definition execute_edits ::
  "('c, 'i, 'fs) collaborators \<Rightarrow> 'c edit_plan \<Rightarrow> string \<Rightarrow> 'fs
     \<Rightarrow> ('c, 'i) edit_result \<times> 'fs" where
  "execute_edits env p user_request files =
     (let st = run_instructions env user_request p files;
          cs = st_changes st; es = st_errors st; ws = st_warnings st;
          summ = \<lparr>total_instructions = length (instructions p),
                  successful_changes = length cs,
                  failed_changes = length es,
                  warnings_count = length ws,
                  files_modified = count_kind ''modified'' cs,
                  files_created = count_kind ''created'' cs,
                  files_deleted = count_kind ''deleted'' cs,
                  timestamp = now_isoformat env\<rparr>
      in (\<lparr>success = (0 < length cs \<and> length es = 0), changes = cs, plan = Some p,
            summary = summ, errors = es, warnings = ws,
            branch_name = None, pr_url = None\<rparr>,
          st_files st))"

subsection \<open>Vocabulary of the executor's invariant\<close>






subsection \<open>A concrete file system and concrete collaborators\<close>

text \<open>
  A small file system on which the theorems below are evaluated: text files by
  their full path, directories, and paths that refuse a write. Reading a
  directory raises, and so does writing to a path that refuses it.
\<close>

record example_disk =
  texts :: "string \<rightharpoonup> string"
  directories :: "string list"
  write_refused :: "string list"

definition disk_path_exists :: "example_disk \<Rightarrow> string \<Rightarrow> bool" where
  "disk_path_exists d p \<longleftrightarrow> texts d p \<noteq> None \<or> p \<in> set (directories d)"

definition disk_read_text :: "example_disk \<Rightarrow> string \<Rightarrow> exn + string" where
  "disk_read_text d p =
     (case texts d p of
        Some t \<Rightarrow> Inr t
      | None \<Rightarrow>
          if p \<in> set (directories d) then Inl (RaisedError ''Is a directory'')
          else Inl (RaisedError ''No such file or directory''))"

definition disk_write_text :: "example_disk \<Rightarrow> string \<Rightarrow> string \<Rightarrow> exn option \<times> example_disk" where
  "disk_write_text d p t =
     (if p \<in> set (write_refused d) then (Some (RaisedError ''Permission denied''), d)
      else (None, d\<lparr>texts := (texts d)(p \<mapsto> t)\<rparr>))"

definition disk_unlink :: "example_disk \<Rightarrow> string \<Rightarrow> exn option \<times> example_disk" where
  "disk_unlink d p = (None, d\<lparr>texts := (texts d)(p := None)\<rparr>)"

text \<open>
  The editor appends a comment with the instruction to the content and raises
  on the instruction "crash"; the validation rejects every content for the
  path \<^verbatim>\<open>bad.py\<close>.
\<close>

definition example_env :: "(unit, unit, example_disk) collaborators" where
  "example_env =
     \<lparr>full_path = (\<lambda>p. ''/work/'' @ p),
      detect_language = (\<lambda>name content. ''python''),
      file_exists = disk_path_exists,
      read_text = disk_read_text,
      write_text = disk_write_text,
      make_parents = (\<lambda>d p. (None, d)),
      unlink = disk_unlink,
      edit_file = (\<lambda>content path lang instr ctx.
         if instr = ''crash'' then Inl (RaisedError ''timeout'')
         else Inr (content @ ''# '' @ instr)),
      validate_edit = (\<lambda>original new path lang.
         if path = ''bad.py'' then Inr (False, [''syntax'']) else Inr (True, [])),
      ai_review = (\<lambda>original new path lang. Reviewed [] ''fine''),
      ai_explain = (\<lambda>original new path lang request. ''edited''),
      str_warnings = (\<lambda>ws. concat ws),
      now_isoformat = ''2024-01-01T00:00:00''\<rparr>"

definition example_files :: example_disk where
  "example_files =
     \<lparr>texts = [''/work/a.py'' \<mapsto> ''x = 1'', ''/work/bad.py'' \<mapsto> ''y = 2'',
               ''/work/locked.py'' \<mapsto> ''z = 3''],
      directories = [''/work/pkg''],
      write_refused = [''/work/locked.py'']\<rparr>"

definition instr :: "string \<Rightarrow> string \<Rightarrow> string \<Rightarrow> int \<Rightarrow> unit edit_instruction" where
  "instr path kind descr prio =
     \<lparr>file_path = path, change_type = kind, description = descr,
      instr_context = None, priority = prio\<rparr>"

definition example_plan :: "unit edit_plan" where
  "example_plan =
     \<lparr>instructions = [instr ''a.py'' ''modify'' ''tidy'' 3,
                       instr ''bad.py'' ''modify'' ''tidy'' 1,
                       instr ''new.py'' ''create'' ''crash'' 2],
      dependencies = [], risks = [], estimated_time = ''quick'', confidence = 1\<rparr>"

section \<open>The repository manager: context cache and cleanup\<close>

text \<open>
  \<^verbatim>\<open>RepositoryInfo\<close> and \<^verbatim>\<open>RepositoryContext\<close>. The nested dictionary of the
  directory structure is a value of a type parameter \<open>'s\<close>.
\<close>

record repository_info =
  info_owner :: string
  info_name :: string
  full_name :: string
  info_description :: "string option"
  info_default_branch :: string
  is_private :: bool
  fork :: bool

record 's repository_context =
  repo_url :: string
  owner :: string
  repo_name :: string
  repo_info :: "repository_info option"
  local_path :: "string option"
  temp_dir :: "string option"
  repo_structure :: 's
  important_files :: "string list"
  key_files_content :: "(string \<times> string) list"
  languages :: "string list"
  file_count :: nat
  default_branch :: string

text \<open>
  What \<^verbatim>\<open>analyze_repository\<close> gathers between parsing the URL and building the
  context: the repository information from the hosting service, the temporary
  directory and the clone in it, and the scans of the clone.
\<close>

record 's checkout =
  co_info :: repository_info
  co_temp_dir :: string
  co_local_path :: string
  co_structure :: 's
  co_important_files :: "string list"
  co_key_files_content :: "(string \<times> string) list"
  co_languages :: "string list"
  co_file_count :: nat

text \<open>
  The manager holds the cache of contexts; \<open>world\<close> is everything outside the
  process that cloning reads and changes (the hosting service, the disk).
\<close>

record ('s, 'w) manager =
  context_cache :: "string \<rightharpoonup> 's repository_context"
  world :: 'w

text \<open>
  \<^verbatim>\<open>analyze_repository\<close>. \<open>md5_hex\<close> is \<^verbatim>\<open>hashlib.md5(repo_url.encode()).hexdigest()\<close>;
  \<open>clone_and_scan\<close> stands for the calls to the hosting service, \<^verbatim>\<open>mkdtemp\<close>,
  \<^verbatim>\<open>Repo.clone_from\<close> and the scans, which change the world and either return
  or raise. Every exception is logged and raised again.
\<close>

definition analyze_repository ::
  "(string \<Rightarrow> string) \<Rightarrow> ('w \<Rightarrow> string \<Rightarrow> string \<Rightarrow> (exn + 's checkout) \<times> 'w)
     \<Rightarrow> string \<Rightarrow> ('s, 'w) manager \<Rightarrow> (exn + 's repository_context) \<times> ('s, 'w) manager" where
  "analyze_repository md5_hex clone_and_scan url m =
     (let cache_key = md5_hex url in
      case context_cache m cache_key of
        Some cached \<Rightarrow> (Inr cached, m)
      | None \<Rightarrow>
          (case parse_repo_url url of
             Inl e \<Rightarrow> (Inl e, m)
           | Inr (own, name) \<Rightarrow>
               (case clone_and_scan (world m) own name of
                  (Inl e, w) \<Rightarrow> (Inl e, m\<lparr>world := w\<rparr>)
                | (Inr co, w) \<Rightarrow>
                    (let ctx = \<lparr>repo_url = url, owner = own, repo_name = name,
                                repo_info = Some (co_info co),
                                local_path = Some (co_local_path co),
                                temp_dir = Some (co_temp_dir co),
                                repo_structure = co_structure co,
                                important_files = co_important_files co,
                                key_files_content = co_key_files_content co,
                                languages = co_languages co,
                                file_count = co_file_count co,
                                default_branch = info_default_branch (co_info co)\<rparr>
                     in (Inr ctx, m\<lparr>context_cache := (context_cache m)(cache_key \<mapsto> ctx),
                                     world := w\<rparr>)))))"

text \<open>
  \<^verbatim>\<open>cleanup\<close>. \<open>path_exists\<close> is \<^verbatim>\<open>os.path.exists\<close>; \<open>rmtree\<close> is
  \<^verbatim>\<open>shutil.rmtree\<close>, which changes the world and may raise (\<open>Some e\<close>). The result
  is the world after the call with the lines logged, or the exception the call
  lets escape.
\<close>

datatype log_line = LogInfo string | LogWarning string

definition cleanup ::
  "('w \<Rightarrow> string \<Rightarrow> bool) \<Rightarrow> ('w \<Rightarrow> string \<Rightarrow> exn option \<times> 'w)
     \<Rightarrow> 's repository_context \<Rightarrow> 'w \<Rightarrow> exn + ('w \<times> log_line list)" where
  "cleanup path_exists rmtree ctx w =
     (case temp_dir ctx of
        None \<Rightarrow> Inr (w, [])
      | Some d \<Rightarrow>
          if d \<noteq> [] \<and> path_exists w d
          then (case rmtree w d of
                  (None, w') \<Rightarrow> Inr (w', [LogInfo (''Cleaned up temp directory: '' @ d)])
                | (Some e, w') \<Rightarrow>
                    Inr (w', [LogWarning (''Failed to clean up temp directory: '' @ str_exn e)]))
          else Inr (w, []))"

text \<open>
  A file system for evaluating \<^verbatim>\<open>cleanup\<close>: the directories that exist, and
  among them those whose removal fails.
\<close>

record disk =
  present :: "string list"
  locked :: "string list"

definition disk_exists :: "disk \<Rightarrow> string \<Rightarrow> bool" where
  "disk_exists d p \<longleftrightarrow> p \<in> set (present d)"

definition disk_rmtree :: "disk \<Rightarrow> string \<Rightarrow> exn option \<times> disk" where
  "disk_rmtree d p =
     (if p \<in> set (locked d) then (Some (RaisedError ''Permission denied''), d)
      else (None, d\<lparr>present := removeAll p (present d)\<rparr>))"

text \<open>
  A directory whose removal fails at the first attempt, after deleting a part
  of it, and succeeds at the next one. The world is the stage reached: 0, the
  directory is untouched; 1, it is partly deleted; 2, it is gone.
\<close>

definition staged_exists :: "nat \<Rightarrow> string \<Rightarrow> bool" where
  "staged_exists w p \<longleftrightarrow> w < 2"

definition staged_rmtree :: "nat \<Rightarrow> string \<Rightarrow> exn option \<times> nat" where
  "staged_rmtree w p =
     (if w = 0 then (Some (RaisedError ''Directory not empty''), 1) else (None, 2))"

text \<open>Whether a logged line reports a failure.\<close>

fun is_failure :: "log_line \<Rightarrow> bool" where
  "is_failure (LogWarning m) = True"
| "is_failure (LogInfo m) = False"

definition example_context :: "string \<Rightarrow> unit repository_context" where
  "example_context tmp =
     \<lparr>repo_url = ''https://github.com/owner/repo'', owner = ''owner'', repo_name = ''repo'',
      repo_info = None, local_path = Some (tmp @ ''/repo''), temp_dir = Some tmp,
      repo_structure = (), important_files = [], key_files_content = [], languages = [],
      file_count = 0, default_branch = ''main''\<rparr>"

text \<open>
  A cloning service for evaluating \<^verbatim>\<open>analyze_repository\<close>: the world counts the
  clones made so far and every clone gets a temporary directory of its own.
\<close>

definition example_clone :: "nat \<Rightarrow> string \<Rightarrow> string \<Rightarrow> (exn + unit checkout) \<times> nat" where
  "example_clone n own name =
     (Inr \<lparr>co_info = \<lparr>info_owner = own, info_name = name, full_name = own @ ''/'' @ name,
                       info_description = None, info_default_branch = ''main'',
                       is_private = False, fork = False\<rparr>,
            co_temp_dir = ''temp/repos/github_ai_'' @ str_nat n,
            co_local_path = ''temp/repos/github_ai_'' @ str_nat n @ ''/'' @ name,
            co_structure = (), co_important_files = [], co_key_files_content = [],
            co_languages = [], co_file_count = 0\<rparr>,
      Suc n)"

definition example_manager :: "(unit, nat) manager" where
  "example_manager = \<lparr>context_cache = Map.empty, world = 0\<rparr>"

section \<open>The repository manager: validating and planning\<close>

text \<open>
  \<^verbatim>\<open>_validate_edit_plan\<close> collects warnings and logs them; it returns nothing.
  Each of its regular expressions matches one fixed text, so
  \<^verbatim>\<open>re.search(pattern, file_path)\<close> is the test whether that text occurs in the
  path. The model returns the warning list that is logged.
\<close>

definition risky_patterns :: "string list" where
  "risky_patterns = [''.git/'', ''/etc/'', ''/bin/'', ''/usr/'', ''/var/'', ''/sys/'', ''/proc/'']"

definition important_extensions :: "string list" where
  "important_extensions = [''.py'', ''.js'', ''.ts'', ''.java'', ''.cpp'', ''.c'', ''.go'', ''.rs'']"

definition instruction_warnings :: "'c edit_instruction \<Rightarrow> string list" where
  "instruction_warnings i =
     map (\<lambda>pattern. ''Risky file path: '' @ file_path i)
       (filter (\<lambda>pattern. sublist pattern (file_path i)) risky_patterns)
     @ (if change_type i = ''delete''
           \<and> list_ex (\<lambda>ext. suffix ext (file_path i)) important_extensions
        then [''Deleting source code file: '' @ file_path i] else [])"

definition validate_edit_plan :: "'c edit_plan \<Rightarrow> string list" where
  "validate_edit_plan p =
     (if length (instructions p) > 20
      then [''Plan has '' @ str_nat (length (instructions p)) @ '' instructions, which is a lot'']
      else [])
     @ concat (map instruction_warnings (instructions p))"

text \<open>
  \<^verbatim>\<open>plan_edits\<close>: the plan comes from the AI editor, which returns or raises; the
  validation runs on it; the plan is returned. The second component is what the
  validation logs.
\<close>

definition plan_edits ::
  "('s repository_context \<Rightarrow> string \<Rightarrow> exn + 'c edit_plan) \<Rightarrow> 's repository_context \<Rightarrow> string
     \<Rightarrow> exn + ('c edit_plan \<times> string list)" where
  "plan_edits generate_edit_plan ctx user_request =
     (case generate_edit_plan ctx user_request of
        Inl e \<Rightarrow> Inl e
      | Inr p \<Rightarrow> Inr (p, validate_edit_plan p))"

section \<open>The code analyzer\<close>

subsection \<open>Syntax validation\<close>

text \<open>
  The three checkers are library calls; the model takes their outcomes as
  parameters. \<^verbatim>\<open>ast.parse\<close> returns, raises SyntaxError (line, column, message)
  or raises another exception; \<^verbatim>\<open>json.loads\<close> returns, raises JSONDecodeError
  (line, message) or raises another exception; loading the content with PyYAML
  returns, fails at the import, raises YAMLError or raises another exception.
\<close>

datatype py_outcome = PyParsed | PySyntaxError "nat option" "nat option" string | PyRaised string

datatype json_outcome = JsonLoaded | JSONDecodeError nat string | JsonRaised exn

datatype yaml_outcome = YamlLoaded | YamlImportError | YAMLError string | YamlRaised exn

record checkers =
  ast_parse :: "string \<Rightarrow> py_outcome"
  json_loads :: "string \<Rightarrow> json_outcome"
  yaml_safe_load :: "string \<Rightarrow> yaml_outcome"

fun str_lineno :: "nat option \<Rightarrow> string" where
  "str_lineno None = ''None''"
| "str_lineno (Some n) = str_nat n"

definition validate_python_syntax :: "checkers \<Rightarrow> string \<Rightarrow> bool \<times> string option" where
  "validate_python_syntax ck content =
     (case ast_parse ck content of
        PyParsed \<Rightarrow> (True, None)
      | PySyntaxError lineno offset msg \<Rightarrow>
          (False, Some (''Syntax error at line '' @ str_lineno lineno @ '': '' @ msg))
      | PyRaised text \<Rightarrow> (False, Some text))"

definition validate_json_syntax :: "checkers \<Rightarrow> string \<Rightarrow> exn + (bool \<times> string option)" where
  "validate_json_syntax ck content =
     (case json_loads ck content of
        JsonLoaded \<Rightarrow> Inr (True, None)
      | JSONDecodeError lineno msg \<Rightarrow>
          Inr (False, Some (''JSON error at line '' @ str_nat lineno @ '': '' @ msg))
      | JsonRaised e \<Rightarrow> Inl e)"

definition validate_yaml_syntax :: "checkers \<Rightarrow> string \<Rightarrow> exn + (bool \<times> string option)" where
  "validate_yaml_syntax ck content =
     (case yaml_safe_load ck content of
        YamlLoaded \<Rightarrow> Inr (True, None)
      | YamlImportError \<Rightarrow> Inr (True, None)
      | YAMLError text \<Rightarrow> Inr (False, Some text)
      | YamlRaised e \<Rightarrow> Inl e)"

definition validate_syntax :: "checkers \<Rightarrow> string \<Rightarrow> string \<Rightarrow> exn + (bool \<times> string option)" where
  "validate_syntax ck content lang =
     (if lang = ''python'' then Inr (validate_python_syntax ck content)
      else if lang = ''json'' then validate_json_syntax ck content
      else if lang = ''yaml'' then validate_yaml_syntax ck content
      else Inr (True, None))"

subsection \<open>The Python parser on functions whose body is pass\<close>

text \<open>
  \<^verbatim>\<open>ast.parse\<close> belongs to CPython, not to the repository. Its answers are
  modelled for texts of one shape only. Every line of such a text ends in a line
  feed and is one of: the header of a function without parameters,
  \<^verbatim>\<open>def name():\<close>, where the name consists of lower-case letters and is no
  keyword; such a header without its colon; blanks followed by \<^verbatim>\<open>pass\<close>. Every
  header is followed by a block of one or more \<^verbatim>\<open>pass\<close> lines of equal
  indentation. When every header has its colon the text is a module and the
  parser returns. Otherwise the parser (CPython 3.10 and later) raises
  SyntaxError for the first header without colon, with the message
  \<^verbatim>\<open>expected ':'\<close>, the number of that line, and as column the position after
  the last character of the line. For every other text the model gives no
  answer.
\<close>

definition python_keywords :: "string list" where
  "python_keywords =
     [''and'', ''as'', ''assert'', ''async'', ''await'', ''break'', ''class'', ''continue'',
      ''def'', ''del'', ''elif'', ''else'', ''except'', ''finally'', ''for'', ''from'',
      ''global'', ''if'', ''import'', ''in'', ''is'', ''lambda'', ''nonlocal'', ''not'', ''or'',
      ''pass'', ''raise'', ''return'', ''try'', ''while'', ''with'', ''yield'']"

definition expected_colon :: string where
  "expected_colon = ''expected '' @ [CHR 0x27] @ '':'' @ [CHR 0x27]"

datatype line_shape = Header | HeaderNoColon | Body nat | OtherLine

definition classify :: "string \<Rightarrow> line_shape" where
  "classify l =
     (if take 4 l = ''def ''
      then (let name = takeWhile (\<lambda>c. c \<in> set ascii_lowercase) (drop 4 l);
                rest = dropWhile (\<lambda>c. c \<in> set ascii_lowercase) (drop 4 l)
            in if name = [] \<or> name \<in> set python_keywords then OtherLine
               else if rest = ''():'' then Header
               else if rest = ''()'' then HeaderNoColon
               else OtherLine)
      else (let indent = takeWhile (\<lambda>c. c = CHR '' '') l
            in if indent \<noteq> [] \<and> drop (length indent) l = ''pass'' then Body (length indent)
               else OtherLine))"

text \<open>
  Where the parser stands: between two statements of the module, after a header
  whose block has not begun, or in a block of the given indentation. \<open>found\<close>
  is the answer so far: the first missing colon once one was met.
\<close>

datatype position = AtModule | AfterHeader | InBlock nat

fun fragment_lines :: "position \<Rightarrow> py_outcome \<Rightarrow> nat \<Rightarrow> string list \<Rightarrow> py_outcome option" where
  "fragment_lines pos found n [] = (case pos of AfterHeader \<Rightarrow> None | _ \<Rightarrow> Some found)"
| "fragment_lines pos found n (l # ls) =
     (case classify l of
        OtherLine \<Rightarrow> None
      | Header \<Rightarrow>
          (case pos of
             AfterHeader \<Rightarrow> None
           | _ \<Rightarrow> fragment_lines AfterHeader found (Suc n) ls)
      | HeaderNoColon \<Rightarrow>
          (case pos of
             AfterHeader \<Rightarrow> None
           | _ \<Rightarrow>
               fragment_lines AfterHeader
                 (case found of
                    PyParsed \<Rightarrow> PySyntaxError (Some n) (Some (Suc (length l))) expected_colon
                  | _ \<Rightarrow> found)
                 (Suc n) ls)
      | Body k \<Rightarrow>
          (case pos of
             AtModule \<Rightarrow> None
           | AfterHeader \<Rightarrow> fragment_lines (InBlock k) found (Suc n) ls
           | InBlock j \<Rightarrow> if j = k then fragment_lines (InBlock k) found (Suc n) ls else None))"

definition python_fragment :: "string \<Rightarrow> py_outcome option" where
  "python_fragment content =
     (if content \<noteq> [] \<and> last content = CHR 0x0A
      then fragment_lines AtModule PyParsed 1 (butlast (split_on (CHR 0x0A) content))
      else None)"

text \<open>
  Checkers for evaluating the validation. The Python parser is the model above;
  outside the modelled texts, and for JSON, the answers are placeholders that no
  statement relies on. The YAML checker is that of an installation without
  PyYAML.
\<close>

definition fragment_checkers :: checkers where
  "fragment_checkers =
     \<lparr>ast_parse = (\<lambda>content. case python_fragment content of
                                 Some outcome \<Rightarrow> outcome
                               | None \<Rightarrow> PyRaised ''not modelled''),
      json_loads = (\<lambda>content. JsonRaised (RaisedError ''not modelled'')),
      yaml_safe_load = (\<lambda>content. YamlImportError)\<rparr>"

text \<open>The decimal digits that occur in a text, in their order.\<close>

definition digits_of :: "string \<Rightarrow> string" where
  "digits_of s = filter (\<lambda>c. c \<in> set ''0123456789'') s"

subsection \<open>Comparing two versions of a file\<close>

text \<open>
  \<^verbatim>\<open>compare_files\<close>. The two sets of lines are lists without repetition.
  \<open>sequence_ratio\<close> stands for the ratio that \<^verbatim>\<open>difflib.SequenceMatcher\<close> computes
  from the two contents split at white space; \<open>set_order\<close> stands for the order
  in which a set of lines is listed. The keys for the added and the removed
  lines are present only in the dictionary for contents that differ.
\<close>

record comparison =
  changed :: bool
  additions :: nat
  deletions :: nat
  similarity :: real
  added_lines :: "string list option"
  removed_lines :: "string list option"

definition set_minus :: "string list \<Rightarrow> string list \<Rightarrow> string list" where
  "set_minus xs ys = remdups (filter (\<lambda>x. x \<notin> set ys) xs)"

definition compare_files ::
  "(string \<Rightarrow> string \<Rightarrow> real) \<Rightarrow> (string list \<Rightarrow> string list) \<Rightarrow> string \<Rightarrow> string \<Rightarrow> comparison" where
  "compare_files sequence_ratio set_order old_text new_text =
     (if old_text = new_text
      then \<lparr>changed = False, additions = 0, deletions = 0, similarity = 1,
            added_lines = None, removed_lines = None\<rparr>
      else (let old_lines = split_on (CHR 0x0A) old_text;
                new_lines = split_on (CHR 0x0A) new_text;
                added = set_minus new_lines old_lines;
                removed = set_minus old_lines new_lines
            in \<lparr>changed = True, additions = length added, deletions = length removed,
                similarity = sequence_ratio old_text new_text,
                added_lines = Some (take 10 (set_order added)),
                removed_lines = Some (take 10 (set_order removed))\<rparr>))"

section \<open>Properties of the executor\<close>

subsection \<open>One instruction\<close>



lemma modify_file_processed:
  "modify_file env r (st\<lparr>st_processed := q\<rparr>) i =
     (case modify_file env r st i of (x, s) \<Rightarrow> (x, s\<lparr>st_processed := q\<rparr>))"
  by (simp add: modify_file_def Let_def split: sum.split option.split prod.split)

lemma create_file_processed:
  "create_file env (st\<lparr>st_processed := q\<rparr>) i =
     (case create_file env st i of (x, s) \<Rightarrow> (x, s\<lparr>st_processed := q\<rparr>))"
  by (simp add: create_file_def Let_def split: sum.split option.split prod.split)

lemma delete_file_processed:
  "delete_file env (st\<lparr>st_processed := q\<rparr>) i =
     (case delete_file env st i of (x, s) \<Rightarrow> (x, s\<lparr>st_processed := q\<rparr>))"
  by (simp add: delete_file_def Let_def split: sum.split option.split prod.split)

lemma try_instruction_processed:
  "try_instruction env r (st\<lparr>st_processed := q\<rparr>) i =
     (case try_instruction env r st i of (x, s) \<Rightarrow> (x, s\<lparr>st_processed := q\<rparr>))"
  by (simp add: try_instruction_def modify_file_processed create_file_processed
      delete_file_processed)

lemma process_instruction_unfold:
  "process_instruction env r st i =
     (case try_instruction env r st i of
        (None, s) \<Rightarrow> s\<lparr>st_processed := st_processed st @ [i]\<rparr>
      | (Some e, s) \<Rightarrow>
          s\<lparr>st_processed := st_processed st @ [i],
            st_errors := st_errors s @ [processing_failed_message (file_path i) (str_exn e)]\<rparr>)"
  by (simp add: process_instruction_def try_instruction_processed
      split: prod.split option.split)










lemma processed_step:
  "st_processed (process_instruction env r st i) = st_processed st @ [i]"
  by (simp add: process_instruction_unfold split: prod.split option.split)

lemma processed_foldl:
  "st_processed (foldl (process_instruction env r) st xs) = st_processed st @ xs"
  by (induction xs arbitrary: st) (simp_all add: processed_step)

subsection \<open>The whole run\<close>







subsection \<open>The example run\<close>

lemma example_try_bad:
  assumes "st_files st = example_files"
  shows "try_instruction example_env r st (instr ''bad.py'' ''modify'' ''tidy'' 1)
     = (None, st\<lparr>st_errors := st_errors st @ [validation_failed_message ''bad.py'' ''syntax'']\<rparr>)"
  using assms
  by (simp add: try_instruction_def modify_file_def Let_def instr_def example_env_def
      example_files_def disk_path_exists_def disk_read_text_def)

lemma example_try_new:
  assumes "st_files st = example_files"
  shows "try_instruction example_env r st (instr ''new.py'' ''create'' ''crash'' 2)
     = (Some (RaisedError ''timeout''), st)"
  using assms
  by (simp add: try_instruction_def create_file_def Let_def instr_def example_env_def)

lemma example_try_a:
  assumes "st_files st = example_files"
  shows "case try_instruction example_env r st (instr ''a.py'' ''modify'' ''tidy'' 3) of
     (x, s) \<Rightarrow> x = None
        \<and> map change_file_path (st_changes s) = map change_file_path (st_changes st) @ [''a.py'']
        \<and> st_errors s = st_errors st \<and> st_warnings s = st_warnings st"
  using assms
  by (simp add: try_instruction_def modify_file_def Let_def instr_def example_env_def
      example_files_def disk_path_exists_def disk_read_text_def disk_write_text_def)

lemma example_try_locked:
  "try_instruction example_env r (initial_state example_files)
       (instr ''locked.py'' ''modify'' ''tidy'' 1)
     = (Some (RaisedError ''Permission denied''), initial_state example_files)"
  by (simp add: try_instruction_def modify_file_def Let_def instr_def example_env_def
      example_files_def initial_state_def disk_path_exists_def disk_read_text_def
      disk_write_text_def)

lemma example_try_pkg:
  "try_instruction example_env r (initial_state example_files)
       (instr ''pkg'' ''modify'' ''tidy'' 1)
     = (Some (RaisedError ''Is a directory''), initial_state example_files)"
  by (simp add: try_instruction_def modify_file_def Let_def instr_def example_env_def
      example_files_def initial_state_def disk_path_exists_def disk_read_text_def)

lemma example_run:
  "run_instructions example_env r example_plan example_files =
     process_instruction example_env r
       (process_instruction example_env r
         (process_instruction example_env r (initial_state example_files)
           (instr ''bad.py'' ''modify'' ''tidy'' 1))
         (instr ''new.py'' ''create'' ''crash'' 2))
       (instr ''a.py'' ''modify'' ''tidy'' 3)"
  by (simp add: run_instructions_def sorted_instructions_def example_plan_def instr_def)

lemma example_result:
  "map change_file_path (st_changes (run_instructions example_env r example_plan example_files))
     = [''a.py'']
   \<and> st_errors (run_instructions example_env r example_plan example_files)
     = [''Validation failed for bad.py: syntax'',
        ''Failed to process instruction for new.py: timeout'']
   \<and> st_warnings (run_instructions example_env r example_plan example_files) = []"
proof -
  let ?s0 = "initial_state example_files :: (unit, unit, example_disk) exec_state"
  let ?s1 = "process_instruction example_env r ?s0 (instr ''bad.py'' ''modify'' ''tidy'' 1)"
  let ?s2 = "process_instruction example_env r ?s1 (instr ''new.py'' ''create'' ''crash'' 2)"
  let ?s3 = "process_instruction example_env r ?s2 (instr ''a.py'' ''modify'' ''tidy'' 3)"
  have f0: "st_files ?s0 = example_files" by (simp add: initial_state_def)
  have s1: "st_files ?s1 = example_files" "st_changes ?s1 = []"
    "st_errors ?s1 = [''Validation failed for bad.py: syntax'']" "st_warnings ?s1 = []"
    using f0
    by (simp_all add: process_instruction_unfold example_try_bad initial_state_def
        validation_failed_message_def)
  have e2: "?s2 = ?s1\<lparr>st_processed := st_processed ?s1 @ [instr ''new.py'' ''create'' ''crash'' 2],
        st_errors := st_errors ?s1 @ [processing_failed_message ''new.py'' ''timeout'']\<rparr>"
    by (simp only: process_instruction_unfold [where st = ?s1] example_try_new [OF s1(1)])
      (simp add: instr_def)
  have s2: "st_files ?s2 = example_files" "st_changes ?s2 = []"
    "st_errors ?s2 = [''Validation failed for bad.py: syntax'',
        ''Failed to process instruction for new.py: timeout'']" "st_warnings ?s2 = []"
    using s1 by (simp_all add: e2 processing_failed_message_def)
  obtain x s where t: "try_instruction example_env r ?s2 (instr ''a.py'' ''modify'' ''tidy'' 3)
      = (x, s)"
    by (cases "try_instruction example_env r ?s2 (instr ''a.py'' ''modify'' ''tidy'' 3)")
  with example_try_a [OF s2(1), where r = r]
  have x: "x = None"
    and c: "map change_file_path (st_changes s) = map change_file_path (st_changes ?s2) @ [''a.py'']"
      "st_errors s = st_errors ?s2" "st_warnings s = st_warnings ?s2"
    by simp_all
  have e3: "?s3 = s\<lparr>st_processed := st_processed ?s2 @ [instr ''a.py'' ''modify'' ''tidy'' 3]\<rparr>"
    by (simp only: process_instruction_unfold [where st = ?s2] t x) simp
  have s3: "map change_file_path (st_changes ?s3) = [''a.py'']"
    "st_errors ?s3 = [''Validation failed for bad.py: syntax'',
        ''Failed to process instruction for new.py: timeout'']" "st_warnings ?s3 = []"
    unfolding e3 using s2 c by simp_all
  show ?thesis
    unfolding example_run using s3 by simp
qed

subsection \<open>The claims about the executor\<close>

text \<open>
  C1 (as amended). A "modify" instruction on a file that exists and is read,
  for which the editor returns new content and the validation returns a
  verdict. When the verdict is valid and the write succeeds, the new content is
  persisted and exactly one change is appended, of kind "modified", with the
  original and the new content and a validation result that says valid. When
  the verdict is valid and the write raises, no change is appended and one
  error "Failed to process instruction" naming the file is appended. When the
  verdict is invalid, nothing is written, no change is appended and one error
  "Validation failed" naming the file and the validation warnings is appended.
\<close>

theorem modify_existing_file:
  assumes "change_type i = ''modify''"
    and "file_exists env (st_files st) (full_path env (file_path i))"
    and "read_text env (st_files st) (full_path env (file_path i)) = Inr original"
    and "edit_file env original (file_path i)
           (detect_language env (file_path i) (Some original))
           (description i) (instr_context i) = Inr new"
    and "validate_edit env original new (file_path i)
           (detect_language env (file_path i) (Some original)) = Inr (is_valid, vw)"
    and "write_text env (st_files st) (full_path env (file_path i)) new = (wx, fs)"
  shows "(is_valid \<and> wx = None \<longrightarrow>
            st_files (process_instruction env r st i) = fs
          \<and> (\<exists>c. st_changes (process_instruction env r st i) = st_changes st @ [c]
                \<and> change_file_path c = file_path i \<and> change_kind c = ''modified''
                \<and> original_content c = original \<and> new_content c = new
                \<and> validation_result c = (True, vw))
          \<and> st_errors (process_instruction env r st i) = st_errors st
          \<and> st_warnings (process_instruction env r st i) = st_warnings st)
       \<and> (is_valid \<and> wx \<noteq> None \<longrightarrow>
            st_changes (process_instruction env r st i) = st_changes st
          \<and> (\<exists>e. wx = Some e \<and> st_errors (process_instruction env r st i) = st_errors st @
                [processing_failed_message (file_path i) (str_exn e)])
          \<and> st_warnings (process_instruction env r st i) = st_warnings st)
       \<and> (\<not> is_valid \<longrightarrow>
            st_files (process_instruction env r st i) = st_files st
          \<and> st_changes (process_instruction env r st i) = st_changes st
          \<and> st_errors (process_instruction env r st i) = st_errors st @
              [validation_failed_message (file_path i) (str_warnings env vw)]
          \<and> st_warnings (process_instruction env r st i) = st_warnings st)"
proof -
  have t: "try_instruction env r st i = modify_file env r st i"
    using assms(1) by (simp add: try_instruction_def)
  show ?thesis
  proof (cases is_valid)
    case False
    with assms have "modify_file env r st i =
        (None, st\<lparr>st_errors := st_errors st @
           [validation_failed_message (file_path i) (str_warnings env vw)]\<rparr>)"
      by (simp add: modify_file_def Let_def)
    with False show ?thesis
      by (simp add: process_instruction_unfold t)
  next
    case True
    show ?thesis
    proof (cases wx)
      case None
      with True assms have "modify_file env r st i =
          (None, st\<lparr>st_files := fs, st_changes := st_changes st @
             [\<lparr>change_file_path = file_path i, original_content = original,
               new_content = new, change_kind = ''modified'',
               language = detect_language env (file_path i) (Some original),
               validation_result = (True, vw),
               review_result = Some (review_changes env original new (file_path i)
                 (detect_language env (file_path i) (Some original))),
               explanation = Some (explain_changes env original new (file_path i)
                 (detect_language env (file_path i) (Some original)) r)\<rparr>]\<rparr>)"
        by (simp add: modify_file_def Let_def)
      with True None show ?thesis
        by (simp add: process_instruction_unfold t)
    next
      case (Some e)
      with True assms have "modify_file env r st i = (Some e, st\<lparr>st_files := fs\<rparr>)"
        by (simp add: modify_file_def Let_def)
      with True Some show ?thesis
        by (simp add: process_instruction_unfold t)
    qed
  qed
qed

theorem modify_existing_file_witness:
  "texts (st_files (process_instruction example_env ''tidy up'' (initial_state example_files)
       (instr ''a.py'' ''modify'' ''tidy'' 3))) ''/work/a.py'' = Some ''x = 1# tidy''
   \<and> length (st_changes (process_instruction example_env ''tidy up''
       (initial_state example_files) (instr ''a.py'' ''modify'' ''tidy'' 3))) = 1
   \<and> st_changes (process_instruction example_env ''tidy up'' (initial_state example_files)
       (instr ''bad.py'' ''modify'' ''tidy'' 1)) = []
   \<and> st_errors (process_instruction example_env ''tidy up'' (initial_state example_files)
       (instr ''bad.py'' ''modify'' ''tidy'' 1)) = [''Validation failed for bad.py: syntax'']
   \<and> st_errors (process_instruction example_env ''tidy up'' (initial_state example_files)
       (instr ''locked.py'' ''modify'' ''tidy'' 1))
       = [''Failed to process instruction for locked.py: Permission denied'']"
proof -
  let ?s = "initial_state example_files :: (unit, unit, example_disk) exec_state"
  let ?a = "instr ''a.py'' ''modify'' ''tidy'' 3"
  let ?b = "instr ''bad.py'' ''modify'' ''tidy'' 1"
  let ?l = "instr ''locked.py'' ''modify'' ''tidy'' 1"
  let ?fa = "example_files\<lparr>texts := (texts example_files)(''/work/a.py'' \<mapsto> ''x = 1# tidy'')\<rparr>"
  note defs = instr_def example_env_def example_files_def initial_state_def
    disk_path_exists_def disk_read_text_def disk_write_text_def
  have a: "st_files (process_instruction example_env ''tidy up'' ?s ?a) = ?fa
      \<and> (\<exists>c. st_changes (process_instruction example_env ''tidy up'' ?s ?a) = st_changes ?s @ [c]
            \<and> change_file_path c = file_path ?a \<and> change_kind c = ''modified''
            \<and> original_content c = ''x = 1'' \<and> new_content c = ''x = 1# tidy''
            \<and> validation_result c = (True, []))
      \<and> st_errors (process_instruction example_env ''tidy up'' ?s ?a) = st_errors ?s
      \<and> st_warnings (process_instruction example_env ''tidy up'' ?s ?a) = st_warnings ?s"
    using modify_existing_file [where i = ?a and env = example_env and st = ?s
        and original = "''x = 1''" and new = "''x = 1# tidy''" and is_valid = True and vw = "[]"
        and wx = None and fs = ?fa and r = "''tidy up''"]
    by (simp add: defs)
  have b: "st_files (process_instruction example_env ''tidy up'' ?s ?b) = st_files ?s
      \<and> st_changes (process_instruction example_env ''tidy up'' ?s ?b) = st_changes ?s
      \<and> st_errors (process_instruction example_env ''tidy up'' ?s ?b) = st_errors ?s @
          [validation_failed_message (file_path ?b) (str_warnings example_env [''syntax''])]
      \<and> st_warnings (process_instruction example_env ''tidy up'' ?s ?b) = st_warnings ?s"
    using modify_existing_file [where i = ?b and env = example_env and st = ?s
        and original = "''y = 2''" and new = "''y = 2# tidy''" and is_valid = False
        and vw = "[''syntax'']" and wx = None
        and fs = "example_files\<lparr>texts := (texts example_files)(''/work/bad.py'' \<mapsto> ''y = 2# tidy'')\<rparr>"
        and r = "''tidy up''"]
    by (simp add: defs)
  have l: "st_changes (process_instruction example_env ''tidy up'' ?s ?l) = st_changes ?s
      \<and> (\<exists>e. Some (RaisedError ''Permission denied'') = Some e
            \<and> st_errors (process_instruction example_env ''tidy up'' ?s ?l) = st_errors ?s @
                [processing_failed_message (file_path ?l) (str_exn e)])
      \<and> st_warnings (process_instruction example_env ''tidy up'' ?s ?l) = st_warnings ?s"
    using modify_existing_file [where i = ?l and env = example_env and st = ?s
        and original = "''z = 3''" and new = "''z = 3# tidy''" and is_valid = True and vw = "[]"
        and wx = "Some (RaisedError ''Permission denied'')" and fs = example_files
        and r = "''tidy up''"]
    by (simp add: defs)
  have e: "st_changes ?s = []" "st_errors ?s = []"
    by (simp_all add: initial_state_def)
  from a have "texts (st_files (process_instruction example_env ''tidy up'' ?s ?a)) ''/work/a.py''
      = Some ''x = 1# tidy''"
    by simp
  moreover from a e have "length (st_changes (process_instruction example_env ''tidy up'' ?s ?a)) = 1"
    by auto
  moreover from b e have "st_changes (process_instruction example_env ''tidy up'' ?s ?b) = []"
    "st_errors (process_instruction example_env ''tidy up'' ?s ?b)
      = [''Validation failed for bad.py: syntax'']"
    by (simp_all add: validation_failed_message_def instr_def example_env_def)
  moreover from l e have "st_errors (process_instruction example_env ''tidy up'' ?s ?l)
      = [''Failed to process instruction for locked.py: Permission denied'']"
    by (auto simp: processing_failed_message_def instr_def)
  ultimately show ?thesis by simp
qed

text \<open>
  A file that exists need not be writable, nor readable as text. For
  \<^verbatim>\<open>locked.py\<close> the validation passes and the write is refused: nothing is
  persisted and no change is recorded, the error of the except clause is. For
  \<^verbatim>\<open>pkg\<close>, a directory, the read raises before any content is generated.
\<close>

theorem modify_existing_file_counterexample:
  "file_exists example_env example_files (full_path example_env ''locked.py'')
   \<and> validate_edit example_env ''z = 3'' ''z = 3# tidy'' ''locked.py'' ''python'' = Inr (True, [])
   \<and> st_changes (process_instruction example_env ''tidy up'' (initial_state example_files)
         (instr ''locked.py'' ''modify'' ''tidy'' 1)) = []
   \<and> st_errors (process_instruction example_env ''tidy up'' (initial_state example_files)
         (instr ''locked.py'' ''modify'' ''tidy'' 1))
       = [''Failed to process instruction for locked.py: Permission denied'']
   \<and> texts (st_files (process_instruction example_env ''tidy up'' (initial_state example_files)
         (instr ''locked.py'' ''modify'' ''tidy'' 1))) ''/work/locked.py'' = Some ''z = 3''
   \<and> file_exists example_env example_files (full_path example_env ''pkg'')
   \<and> st_changes (process_instruction example_env ''tidy up'' (initial_state example_files)
         (instr ''pkg'' ''modify'' ''tidy'' 1)) = []
   \<and> st_errors (process_instruction example_env ''tidy up'' (initial_state example_files)
         (instr ''pkg'' ''modify'' ''tidy'' 1))
       = [''Failed to process instruction for pkg: Is a directory'']"
proof -
  have 1: "file_exists example_env example_files (full_path example_env ''locked.py'')"
    "file_exists example_env example_files (full_path example_env ''pkg'')"
    by (simp_all add: example_env_def example_files_def disk_path_exists_def)
  have 2: "validate_edit example_env ''z = 3'' ''z = 3# tidy'' ''locked.py'' ''python''
      = Inr (True, [])"
    by (simp add: example_env_def)
  have 3: "texts (st_files (initial_state example_files :: (unit, unit, example_disk) exec_state))
      ''/work/locked.py'' = Some ''z = 3''"
    by (simp add: initial_state_def example_files_def)
  have 4: "st_changes (initial_state example_files :: (unit, unit, example_disk) exec_state) = []"
    "st_errors (initial_state example_files :: (unit, unit, example_disk) exec_state) = []"
    by (simp_all add: initial_state_def)
  have 5: "file_path (instr ''locked.py'' ''modify'' ''tidy'' 1) = ''locked.py''"
    "file_path (instr ''pkg'' ''modify'' ''tidy'' 1) = ''pkg''"
    by (simp_all add: instr_def)
  show ?thesis
    using 1 2 3 4 5
    by (simp add: process_instruction_unfold example_try_locked example_try_pkg
        processing_failed_message_def)
qed

text \<open>
  C2. The executor takes up the instructions of a plan in ascending order of
  their priority value: the order is the stable sort of the plan's instruction
  list by priority, a rearrangement of that list in which instructions of equal
  priority keep their order; priorities 3, 1, 2 are taken up as 1, 2, 3.
\<close>

theorem execute_edits_priority_order:
  "st_processed (run_instructions env r p files) = sort_key priority (instructions p)
     \<and> sorted (map priority (st_processed (run_instructions env r p files)))
     \<and> mset (st_processed (run_instructions env r p files)) = mset (instructions p)
     \<and> (\<forall>k. filter (\<lambda>i. priority i = k) (st_processed (run_instructions env r p files))
            = filter (\<lambda>i. priority i = k) (instructions p))
     \<and> (map priority (instructions p) = [3, 1, 2] \<longrightarrow>
          map priority (st_processed (run_instructions env r p files)) = [1, 2, 3])"
proof -
  have d: "st_processed (run_instructions env r p files) = sort_key priority (instructions p)"
    by (simp add: run_instructions_def processed_foldl initial_state_def
        sorted_instructions_def)
  have ex: "map priority (instructions p) = [3, 1, 2] \<longrightarrow>
      map priority (sort_key priority (instructions p)) = [1, 2, 3]"
    by (auto simp: map_eq_Cons_conv)
  show ?thesis
    using ex by (simp add: d sort_key_stable)
qed

theorem execute_edits_priority_order_witness:
  "map priority (instructions example_plan) = [3, 1, 2]
   \<and> map file_path (st_processed (run_instructions example_env ''tidy up'' example_plan
        example_files)) = [''bad.py'', ''new.py'', ''a.py'']
   \<and> map priority (st_processed (run_instructions example_env ''tidy up'' example_plan
        example_files)) = [1, 2, 3]"
  using execute_edits_priority_order [of example_env "''tidy up''" example_plan example_files]
  by (simp add: example_plan_def instr_def)

text \<open>
  C3. The success flag of the result is true exactly when the change list is
  not empty and the error list is empty.
\<close>

theorem execute_edits_success_iff:
  "success (fst (execute_edits env p r files)) \<longleftrightarrow>
     changes (fst (execute_edits env p r files)) \<noteq> [] \<and>
     errors (fst (execute_edits env p r files)) = []"
  by (simp add: execute_edits_def Let_def)

theorem execute_edits_success_iff_witness:
  "\<not> success (fst (execute_edits example_env example_plan ''tidy up'' example_files))
   \<and> length (changes (fst (execute_edits example_env example_plan ''tidy up'' example_files))) = 1
   \<and> length (errors (fst (execute_edits example_env example_plan ''tidy up'' example_files))) = 2"
proof -
  have c: "map change_file_path
      (changes (fst (execute_edits example_env example_plan ''tidy up'' example_files))) = [''a.py'']"
    and e: "length (errors (fst (execute_edits example_env example_plan ''tidy up'' example_files))) = 2"
    using example_result [of "''tidy up''"] by (simp_all add: execute_edits_def Let_def)
  from c have "length (map change_file_path
      (changes (fst (execute_edits example_env example_plan ''tidy up'' example_files)))) = 1"
    by simp
  then have "length (changes (fst (execute_edits example_env example_plan ''tidy up'' example_files))) = 1"
    by simp
  with e execute_edits_success_iff [of example_env example_plan "''tidy up''" example_files]
  show ?thesis by auto
qed



section \<open>Properties of the URL parser\<close>

text \<open>
  C9. For the URL of the repository \<^verbatim>\<open>git/git\<close>, with or without the suffix
  \<^verbatim>\<open>.git\<close>, the second \<^verbatim>\<open>rstrip\<close> removes the whole name, since it consists of the
  characters dot, g, i and t only: the path has one part left and
  \<^verbatim>\<open>parse_repo_url\<close> raises ValueError. It returns neither the owner with the
  name, as its documentation says, nor the owner with a stripped name.
\<close>

theorem parse_repo_url_strips_whole_name:
  "parse_repo_url ''https://github.com/git/git''
     = Inl (ValueError ''Invalid GitHub URL: https://github.com/git/'')
   \<and> parse_repo_url ''https://github.com/git/git.git''
     = Inl (ValueError ''Invalid GitHub URL: https://github.com/git/'')
   \<and> rstrip_chars ''.git'' ''git'' = []"
  by code_simp

section \<open>Properties of the repository manager\<close>

text \<open>
  C5. When a call of \<^verbatim>\<open>analyze_repository\<close> returns a context, the next call
  with the same URL returns the same context and leaves the manager as it is:
  the cache under the hash of the URL holds the context, and neither the cache
  nor the world outside changes, so nothing is cloned or scanned again.
\<close>

theorem analyze_repository_cached:
  assumes "analyze_repository md5_hex clone_and_scan url m = (Inr ctx, m')"
  shows "analyze_repository md5_hex clone_and_scan url m' = (Inr ctx, m')
       \<and> context_cache m' (md5_hex url) = Some ctx"
  using assms
  by (auto simp: analyze_repository_def Let_def split: option.splits sum.splits prod.splits)

theorem analyze_repository_cached_witness:
  "fst (analyze_repository id example_clone ''https://github.com/owner/repo'' example_manager)
     = fst (analyze_repository id example_clone ''https://github.com/owner/repo''
         (snd (analyze_repository id example_clone ''https://github.com/owner/repo'' example_manager)))
   \<and> world (snd (analyze_repository id example_clone ''https://github.com/owner/repo''
         (snd (analyze_repository id example_clone ''https://github.com/owner/repo'' example_manager)))) = 1"
proof -
  have p: "parse_repo_url ''https://github.com/owner/repo'' = Inr (''owner'', ''repo'')"
    by code_simp
  obtain c m where r: "analyze_repository id example_clone ''https://github.com/owner/repo''
      example_manager = (Inr c, m)" and w: "world m = 1"
    by (simp add: analyze_repository_def p example_clone_def example_manager_def Let_def)
  from analyze_repository_cached [OF r] r w show ?thesis
    by simp
qed

lemma instruction_warnings_risky:
  assumes "pattern \<in> set risky_patterns" and "sublist pattern (file_path i)"
  shows "''Risky file path: '' @ file_path i \<in> set (instruction_warnings i)"
  using assms by (auto simp: instruction_warnings_def)

lemma instruction_warnings_logged:
  assumes "i \<in> set (instructions p)"
  shows "set (instruction_warnings i) \<subseteq> set (validate_edit_plan p)"
  using assms by (auto simp: validate_edit_plan_def)

text \<open>
  C8 (as amended). For every instruction of a plan whose path contains one of
  the seven fragments \<^verbatim>\<open>.git/\<close>, \<^verbatim>\<open>/etc/\<close>, \<^verbatim>\<open>/bin/\<close>, \<^verbatim>\<open>/usr/\<close>, \<^verbatim>\<open>/var/\<close>,
  \<^verbatim>\<open>/sys/\<close>, \<^verbatim>\<open>/proc/\<close>, the validation logs the warning "Risky file path" for
  that path. Planning returns exactly the plan the editor produced, with the
  warnings beside it, and fails only when the editor itself fails: the
  validation raises nothing, changes nothing and stops nothing.
\<close>

theorem validate_edit_plan_flags_risky:
  "(\<forall>i \<in> set (instructions p). \<forall>pattern \<in> set risky_patterns.
       sublist pattern (file_path i) \<longrightarrow>
         ''Risky file path: '' @ file_path i \<in> set (validate_edit_plan p))
   \<and> ''.git/'' \<in> set risky_patterns
   \<and> (\<forall>q. generate_edit_plan ctx request = Inr q \<longrightarrow>
         plan_edits generate_edit_plan ctx request = Inr (q, validate_edit_plan q))
   \<and> (\<forall>e. generate_edit_plan ctx request = Inl e \<longrightarrow>
         plan_edits generate_edit_plan ctx request = Inl e)"
proof -
  have "''Risky file path: '' @ file_path i \<in> set (validate_edit_plan p)"
    if "i \<in> set (instructions p)" "pattern \<in> set risky_patterns"
      "sublist pattern (file_path i)" for i pattern
    using instruction_warnings_risky [OF that(2,3)]
      instruction_warnings_logged [OF that(1)] by blast
  moreover have "''.git/'' \<in> set risky_patterns"
    by (simp add: risky_patterns_def)
  ultimately show ?thesis
    by (simp add: plan_edits_def)
qed

theorem validate_edit_plan_flags_risky_witness:
  "''Risky file path: .git/config'' \<in> set (validate_edit_plan
      \<lparr>instructions = [instr ''.git/config'' ''modify'' ''tidy'' 1],
       dependencies = [], risks = [], estimated_time = ''quick'', confidence = 1\<rparr>)
   \<and> plan_edits (\<lambda>ctx request. Inr example_plan) (example_context ''/tmp/t'') ''tidy up''
       = Inr (example_plan, validate_edit_plan example_plan)"
proof -
  let ?p = "\<lparr>instructions = [instr ''.git/config'' ''modify'' ''tidy'' 1],
       dependencies = [], risks = [], estimated_time = ''quick'', confidence = 1\<rparr>"
  have s: "sublist ''.git/'' (file_path (instr ''.git/config'' ''modify'' ''tidy'' 1))"
    by (simp add: instr_def sublist_code)
  have m: "instr ''.git/config'' ''modify'' ''tidy'' 1 \<in> set (instructions ?p)"
    by simp
  have fp: "file_path (instr ''.git/config'' ''modify'' ''tidy'' 1) = ''.git/config''"
    by (simp add: instr_def)
  from validate_edit_plan_flags_risky [of ?p "\<lambda>ctx request. Inr example_plan"
      "example_context ''/tmp/t''" "''tidy up''"]
  have all: "\<forall>i \<in> set (instructions ?p). \<forall>pattern \<in> set risky_patterns.
       sublist pattern (file_path i) \<longrightarrow>
         ''Risky file path: '' @ file_path i \<in> set (validate_edit_plan ?p)"
    and git: "''.git/'' \<in> set risky_patterns"
    and pl: "\<forall>q. (Inr example_plan :: exn + unit edit_plan) = Inr q \<longrightarrow>
         plan_edits (\<lambda>ctx request. Inr example_plan) (example_context ''/tmp/t'') ''tidy up''
           = Inr (q, validate_edit_plan q)"
    by blast+
  from all m git s have "''Risky file path: '' @ file_path (instr ''.git/config'' ''modify'' ''tidy'' 1)
      \<in> set (validate_edit_plan ?p)"
    by blast
  with fp pl show ?thesis by simp
qed

text \<open>
  The paths \<^verbatim>\<open>.git\<close> and \<^verbatim>\<open>.svn/entries\<close> lie in the metadata of a version control
  system, \<^verbatim>\<open>/etc\<close> is a system root and \<^verbatim>\<open>/root/.ssh/authorized_keys\<close> lies under
  one; none of them contains one of the seven fragments, and the validation
  logs no warning for a plan that modifies them.
\<close>

theorem validate_edit_plan_unflagged_counterexample:
  "validate_edit_plan
     \<lparr>instructions = [instr ''.git'' ''modify'' ''tidy'' 1,
                       instr ''.svn/entries'' ''modify'' ''tidy'' 1,
                       instr ''/etc'' ''modify'' ''tidy'' 1,
                       instr ''/root/.ssh/authorized_keys'' ''modify'' ''tidy'' 1],
      dependencies = [], risks = [], estimated_time = ''quick'', confidence = 1\<rparr> = []"
  by (simp add: validate_edit_plan_def instruction_warnings_def instr_def risky_patterns_def
      sublist_code)

text \<open>
  C10 (as amended). \<^verbatim>\<open>cleanup\<close> always returns: without a temporary directory,
  or with one that does not exist, it changes nothing and logs nothing; a
  failure of the removal is caught and logged as a warning. When the first call
  logged no failure, and a removal that succeeds leaves no directory behind, a
  second call changes nothing and logs nothing.
\<close>

theorem cleanup_never_raises:
  "(\<exists>w' logged. cleanup path_exists rmtree ctx w = Inr (w', logged))
   \<and> (temp_dir ctx = None \<or> temp_dir ctx = Some [] \<or>
        (\<exists>d. temp_dir ctx = Some d \<and> \<not> path_exists w d) \<longrightarrow>
          cleanup path_exists rmtree ctx w = Inr (w, []))
   \<and> (\<forall>d e w'. temp_dir ctx = Some d \<and> d \<noteq> [] \<and> path_exists w d
          \<and> rmtree w d = (Some e, w') \<longrightarrow>
          cleanup path_exists rmtree ctx w =
            Inr (w', [LogWarning (''Failed to clean up temp directory: '' @ str_exn e)]))
   \<and> ((\<forall>v d v'. rmtree v d = (None, v') \<longrightarrow> \<not> path_exists v' d)
       \<longrightarrow> (\<forall>w1 l1. cleanup path_exists rmtree ctx w = Inr (w1, l1)
                \<and> \<not> list_ex is_failure l1 \<longrightarrow>
              cleanup path_exists rmtree ctx w1 = Inr (w1, [])))"
proof -
  have a: "\<exists>w' logged. cleanup path_exists rmtree ctx w = Inr (w', logged)"
    by (auto simp: cleanup_def split: option.splits prod.splits)
  have b: "temp_dir ctx = None \<or> temp_dir ctx = Some [] \<or>
        (\<exists>d. temp_dir ctx = Some d \<and> \<not> path_exists w d) \<longrightarrow>
          cleanup path_exists rmtree ctx w = Inr (w, [])"
    by (auto simp: cleanup_def)
  have c: "\<forall>d e w'. temp_dir ctx = Some d \<and> d \<noteq> [] \<and> path_exists w d
          \<and> rmtree w d = (Some e, w') \<longrightarrow>
          cleanup path_exists rmtree ctx w =
            Inr (w', [LogWarning (''Failed to clean up temp directory: '' @ str_exn e)])"
    by (auto simp: cleanup_def)
  have d: "cleanup path_exists rmtree ctx w1 = Inr (w1, [])"
    if h1: "\<forall>v d v'. rmtree v d = (None, v') \<longrightarrow> \<not> path_exists v' d"
      and r: "cleanup path_exists rmtree ctx w = Inr (w1, l1)"
      and q: "\<not> list_ex is_failure l1" for w1 l1
  proof (cases "temp_dir ctx")
    case None
    then show ?thesis by (simp add: cleanup_def)
  next
    case (Some dir)
    note H1 = h1 [rule_format]
    show ?thesis
    proof (cases "dir \<noteq> [] \<and> path_exists w dir")
      case False
      with Some r have "w1 = w" by (auto simp: cleanup_def)
      with Some False show ?thesis by (auto simp: cleanup_def)
    next
      case True
      obtain x w' where x: "rmtree w dir = (x, w')"
        by (cases "rmtree w dir")
      show ?thesis
      proof (cases x)
        case None
        with x have n: "rmtree w dir = (None, w')" by simp
        with Some True r have "w1 = w'" by (simp add: cleanup_def)
        moreover from n have "\<not> path_exists w' dir" by (rule H1)
        ultimately show ?thesis using Some by (simp add: cleanup_def)
      next
        case (Some e)
        with x \<open>temp_dir ctx = Some dir\<close> True r
        have "l1 = [LogWarning (''Failed to clean up temp directory: '' @ str_exn e)]"
          by (auto simp: cleanup_def)
        with q show ?thesis by simp
      qed
    qed
  qed
  have d': "(\<forall>v d v'. rmtree v d = (None, v') \<longrightarrow> \<not> path_exists v' d)
       \<longrightarrow> (\<forall>w1 l1. cleanup path_exists rmtree ctx w = Inr (w1, l1)
                \<and> \<not> list_ex is_failure l1 \<longrightarrow>
              cleanup path_exists rmtree ctx w1 = Inr (w1, []))"
  proof (intro impI allI)
    fix w1 l1
    assume h1: "\<forall>v d v'. rmtree v d = (None, v') \<longrightarrow> \<not> path_exists v' d"
      and r: "cleanup path_exists rmtree ctx w = Inr (w1, l1) \<and> \<not> list_ex is_failure l1"
    from r have r1: "cleanup path_exists rmtree ctx w = Inr (w1, l1)"
      and r2: "\<not> list_ex is_failure l1"
      by simp_all
    show "cleanup path_exists rmtree ctx w1 = Inr (w1, [])"
      by (rule d [OF h1 r1 r2])
  qed
  show ?thesis
    by (intro conjI) (rule a, rule b, rule c, rule d')
qed

theorem cleanup_never_raises_witness:
  "cleanup disk_exists disk_rmtree (example_context ''/tmp/t'') \<lparr>present = [''/tmp/t''], locked = []\<rparr>
     = Inr (\<lparr>present = [], locked = []\<rparr>, [LogInfo ''Cleaned up temp directory: /tmp/t''])
   \<and> cleanup disk_exists disk_rmtree (example_context ''/tmp/t'') \<lparr>present = [], locked = []\<rparr>
     = Inr (\<lparr>present = [], locked = []\<rparr>, [])
   \<and> cleanup staged_exists staged_rmtree (example_context ''/tmp/t'') 2 = Inr (2, [])"
proof -
  let ?c = "example_context ''/tmp/t''"
  let ?w = "\<lparr>present = [''/tmp/t''], locked = []\<rparr>"
  have h1: "\<forall>v d v'. disk_rmtree v d = (None, v') \<longrightarrow> \<not> disk_exists v' d"
    by (auto simp: disk_rmtree_def disk_exists_def split: if_splits)
  have h2: "\<forall>v d v'. staged_rmtree v d = (None, v') \<longrightarrow> \<not> staged_exists v' d"
    by (auto simp: staged_rmtree_def staged_exists_def split: if_splits)
  have a: "cleanup disk_exists disk_rmtree ?c ?w
      = Inr (\<lparr>present = [], locked = []\<rparr>, [LogInfo ''Cleaned up temp directory: /tmp/t''])"
    by (simp add: cleanup_def example_context_def disk_exists_def disk_rmtree_def)
  have b: "cleanup staged_exists staged_rmtree ?c 1
      = Inr (2, [LogInfo ''Cleaned up temp directory: /tmp/t''])"
    by (simp add: cleanup_def example_context_def staged_exists_def staged_rmtree_def)
  have q: "\<not> list_ex is_failure [LogInfo ''Cleaned up temp directory: /tmp/t'']"
    by simp
  from cleanup_never_raises [of disk_exists disk_rmtree ?c ?w] h1
  have "\<forall>w1 l1. cleanup disk_exists disk_rmtree ?c ?w = Inr (w1, l1)
      \<and> \<not> list_ex is_failure l1 \<longrightarrow> cleanup disk_exists disk_rmtree ?c w1 = Inr (w1, [])"
    by blast
  with a q have 1: "cleanup disk_exists disk_rmtree ?c \<lparr>present = [], locked = []\<rparr>
      = Inr (\<lparr>present = [], locked = []\<rparr>, [])"
    by blast
  from cleanup_never_raises [of staged_exists staged_rmtree ?c 1] h2
  have "\<forall>w1 l1. cleanup staged_exists staged_rmtree ?c 1 = Inr (w1, l1)
      \<and> \<not> list_ex is_failure l1 \<longrightarrow> cleanup staged_exists staged_rmtree ?c w1 = Inr (w1, [])"
    by blast
  with b q have 2: "cleanup staged_exists staged_rmtree ?c 2 = Inr (2, [])"
    by blast
  from a 1 2 show ?thesis by simp
qed

text \<open>
  A directory that is removed at the second attempt only: the first call of
  \<^verbatim>\<open>cleanup\<close> logs the failure and leaves the directory, partly deleted; the
  second call removes it. Two calls leave the file system in another state than
  one call.
\<close>

theorem cleanup_twice_counterexample:
  "cleanup staged_exists staged_rmtree (example_context ''/tmp/t'') 0
     = Inr (1, [LogWarning ''Failed to clean up temp directory: Directory not empty''])
   \<and> cleanup staged_exists staged_rmtree (example_context ''/tmp/t'') 1
     = Inr (2, [LogInfo ''Cleaned up temp directory: /tmp/t''])
   \<and> staged_exists 1 ''/tmp/t'' \<and> \<not> staged_exists 2 ''/tmp/t''"
  by (simp add: cleanup_def example_context_def staged_exists_def staged_rmtree_def)

section \<open>Properties of the code analyzer\<close>

lemma python_fragment_with_colon:
  "python_fragment (''def test():'' @ [CHR 0x0A] @ '' pass'' @ [CHR 0x0A]) = Some PyParsed"
  by (simp add: python_fragment_def classify_def ascii_lowercase_def python_keywords_def)

lemma python_fragment_without_colon:
  "python_fragment (''def test()'' @ [CHR 0x0A] @ '' pass'' @ [CHR 0x0A])
     = Some (PySyntaxError (Some 1) (Some 11) expected_colon)"
  by (simp add: python_fragment_def classify_def ascii_lowercase_def python_keywords_def)

text \<open>
  C6 (as amended). With a Python parser that answers as CPython does on the
  modelled texts, \<^verbatim>\<open>validate_syntax\<close> for Python returns valid with no message
  for \<^verbatim>\<open>"def test():\n pass\n"\<close>, and invalid for \<^verbatim>\<open>"def test()\n pass\n"\<close> with the
  message \<^verbatim>\<open>Syntax error at line 1: expected ':'\<close>. In general the message for a
  syntax error consists of the line number and the text that the parser
  reports; the column that the parser reports is not part of it. For every
  language other than Python, JSON and YAML, and for YAML when the checker
  cannot be imported, \<^verbatim>\<open>validate_syntax\<close> returns valid with no message.
\<close>

theorem validate_syntax_verdicts:
  assumes "\<forall>text outcome. python_fragment text = Some outcome \<longrightarrow> ast_parse ck text = outcome"
  shows "validate_syntax ck (''def test():'' @ [CHR 0x0A] @ '' pass'' @ [CHR 0x0A]) ''python''
           = Inr (True, None)
       \<and> validate_syntax ck (''def test()'' @ [CHR 0x0A] @ '' pass'' @ [CHR 0x0A]) ''python''
           = Inr (False, Some (''Syntax error at line 1: '' @ expected_colon))
       \<and> (ast_parse ck content = PyParsed \<longrightarrow>
            validate_syntax ck content ''python'' = Inr (True, None))
       \<and> (ast_parse ck content = PySyntaxError lineno col msg \<longrightarrow>
            validate_syntax ck content ''python''
              = Inr (False, Some (''Syntax error at line '' @ str_lineno lineno @ '': '' @ msg)))
       \<and> (lang \<noteq> ''python'' \<and> lang \<noteq> ''json'' \<and> lang \<noteq> ''yaml'' \<longrightarrow>
            validate_syntax ck content lang = Inr (True, None))
       \<and> (yaml_safe_load ck content = YamlImportError \<longrightarrow>
            validate_syntax ck content ''yaml'' = Inr (True, None))"
proof -
  have g: "ast_parse ck (''def test():'' @ [CHR 0x0A] @ '' pass'' @ [CHR 0x0A]) = PyParsed"
    using assms python_fragment_with_colon by blast
  have b: "ast_parse ck (''def test()'' @ [CHR 0x0A] @ '' pass'' @ [CHR 0x0A])
      = PySyntaxError (Some 1) (Some 11) expected_colon"
    using assms python_fragment_without_colon by blast
  have 1: "validate_syntax ck (''def test():'' @ [CHR 0x0A] @ '' pass'' @ [CHR 0x0A]) ''python''
      = Inr (True, None)"
    unfolding validate_syntax_def validate_python_syntax_def g by simp
  have 2: "validate_syntax ck (''def test()'' @ [CHR 0x0A] @ '' pass'' @ [CHR 0x0A]) ''python''
      = Inr (False, Some (''Syntax error at line 1: '' @ expected_colon))"
    unfolding validate_syntax_def validate_python_syntax_def b
    by (simp add: str_nat.simps [of "Suc 0"])
  have 3: "(ast_parse ck content = PyParsed \<longrightarrow>
            validate_syntax ck content ''python'' = Inr (True, None))
       \<and> (ast_parse ck content = PySyntaxError lineno col msg \<longrightarrow>
            validate_syntax ck content ''python''
              = Inr (False, Some (''Syntax error at line '' @ str_lineno lineno @ '': '' @ msg)))
       \<and> (lang \<noteq> ''python'' \<and> lang \<noteq> ''json'' \<and> lang \<noteq> ''yaml'' \<longrightarrow>
            validate_syntax ck content lang = Inr (True, None))
       \<and> (yaml_safe_load ck content = YamlImportError \<longrightarrow>
            validate_syntax ck content ''yaml'' = Inr (True, None))"
    by (simp add: validate_syntax_def validate_python_syntax_def validate_yaml_syntax_def)
  from 1 2 3 show ?thesis by (intro conjI) simp_all
qed

lemma fragment_checkers_agree:
  "\<forall>text outcome. python_fragment text = Some outcome \<longrightarrow>
      ast_parse fragment_checkers text = outcome"
  by (simp add: fragment_checkers_def)

theorem validate_syntax_verdicts_witness:
  "validate_syntax fragment_checkers (''def test():'' @ [CHR 0x0A] @ '' pass'' @ [CHR 0x0A]) ''python''
     = Inr (True, None)
   \<and> validate_syntax fragment_checkers (''def test()'' @ [CHR 0x0A] @ '' pass'' @ [CHR 0x0A]) ''python''
     = Inr (False, Some (''Syntax error at line 1: expected '' @ [CHR 0x27] @ '':'' @ [CHR 0x27]))
   \<and> validate_syntax fragment_checkers ''fn main() {'' ''rust'' = Inr (True, None)
   \<and> validate_syntax fragment_checkers ''a: [b'' ''yaml'' = Inr (True, None)"
proof -
  have y: "yaml_safe_load fragment_checkers ''a: [b'' = YamlImportError"
    by (simp add: fragment_checkers_def)
  have r: "''rust'' \<noteq> ''python'' \<and> ''rust'' \<noteq> ''json'' \<and> ''rust'' \<noteq> ''yaml''"
    by simp
  note v = validate_syntax_verdicts [OF fragment_checkers_agree]
  from v [where lang = "''rust''" and content = "''fn main() {''"] r
  have 3: "validate_syntax fragment_checkers ''fn main() {'' ''rust'' = Inr (True, None)"
    by blast
  from v [where lang = "''rust''" and content = "''a: [b''"] y
  have 4: "validate_syntax fragment_checkers ''a: [b'' ''yaml'' = Inr (True, None)"
    by blast
  from v [where lang = "''rust''" and content = "''a: [b''"] 3 4
  show ?thesis by (simp add: expected_colon_def)
qed

text \<open>
  For \<^verbatim>\<open>"def test()\n pass\n"\<close> the parser reports line 1 and column 11. The
  message of \<^verbatim>\<open>validate_syntax\<close> holds the line number and no other digit: the
  column is not in it.
\<close>

theorem validate_syntax_column_counterexample:
  "ast_parse fragment_checkers (''def test()'' @ [CHR 0x0A] @ '' pass'' @ [CHR 0x0A])
     = PySyntaxError (Some 1) (Some 11) (''expected '' @ [CHR 0x27] @ '':'' @ [CHR 0x27])
   \<and> validate_syntax fragment_checkers (''def test()'' @ [CHR 0x0A] @ '' pass'' @ [CHR 0x0A]) ''python''
     = Inr (False, Some (''Syntax error at line 1: expected '' @ [CHR 0x27] @ '':'' @ [CHR 0x27]))
   \<and> digits_of (''Syntax error at line 1: expected '' @ [CHR 0x27] @ '':'' @ [CHR 0x27]) = ''1''"
proof -
  have b: "ast_parse fragment_checkers (''def test()'' @ [CHR 0x0A] @ '' pass'' @ [CHR 0x0A])
      = PySyntaxError (Some 1) (Some 11) expected_colon"
    using fragment_checkers_agree python_fragment_without_colon by blast
  have m: "validate_syntax fragment_checkers (''def test()'' @ [CHR 0x0A] @ '' pass'' @ [CHR 0x0A])
      ''python'' = Inr (False, Some (''Syntax error at line 1: '' @ expected_colon))"
    unfolding validate_syntax_def validate_python_syntax_def b
    by (simp add: str_nat.simps [of "Suc 0"])
  have d: "digits_of (''Syntax error at line 1: expected '' @ [CHR 0x27] @ '':'' @ [CHR 0x27]) = ''1''"
    by (simp add: digits_of_def)
  from b m d show ?thesis by (simp add: expected_colon_def)
qed

text \<open>
  C7. Comparing a content with itself gives unchanged, no additions, no
  deletions and similarity 1. For two contents that differ, the additions are
  the number of distinct lines of the new content that are no line of the old
  one, and the deletions the number the other way round. Whether the contents
  count as changed does not depend on the order of the two arguments.
\<close>

theorem compare_files_properties:
  "compare_files ratio ord x x =
     \<lparr>changed = False, additions = 0, deletions = 0, similarity = 1,
      added_lines = None, removed_lines = None\<rparr>
   \<and> (old \<noteq> new \<longrightarrow>
        additions (compare_files ratio ord old new)
          = card (set (split_on (CHR 0x0A) new) - set (split_on (CHR 0x0A) old))
      \<and> deletions (compare_files ratio ord old new)
          = card (set (split_on (CHR 0x0A) old) - set (split_on (CHR 0x0A) new)))
   \<and> changed (compare_files ratio ord old new) = changed (compare_files ratio ord new old)"
proof -
  have c: "length (set_minus xs ys) = card (set xs - set ys)" for xs ys
  proof -
    have "set (filter (\<lambda>x. x \<notin> set ys) xs) = set xs - set ys" by auto
    then show ?thesis
      by (simp add: set_minus_def length_remdups_card_conv)
  qed
  show ?thesis
    by (auto simp: compare_files_def Let_def c)
qed

theorem compare_files_properties_witness:
  "additions (compare_files (\<lambda>a b. 1 / 2) id (''a'' @ [CHR 0x0A] @ ''b'') (''a'' @ [CHR 0x0A] @ ''c'')) = 1
   \<and> deletions (compare_files (\<lambda>a b. 1 / 2) id (''a'' @ [CHR 0x0A] @ ''b'') (''a'' @ [CHR 0x0A] @ ''c'')) = 1"
proof -
  let ?old = "''a'' @ [CHR 0x0A] @ ''b''" and ?new = "''a'' @ [CHR 0x0A] @ ''c''"
  have ne: "?old \<noteq> ?new" by simp
  have so: "split_on (CHR 0x0A) ?old = [''a'', ''b'']" and sn: "split_on (CHR 0x0A) ?new = [''a'', ''c'']"
    by simp_all
  have "set [''a'', ''c''] - set [''a'', ''b''] = {''c''}" "set [''a'', ''b''] - set [''a'', ''c''] = {''b''}"
    by auto
  with compare_files_properties [of "\<lambda>a b. 1 / 2" id x ?old ?new] ne so sn
  show ?thesis by simp
qed

end
